theory Spec2Isabelle
  imports Complex_Main "HOL-Library.Word"
begin

section \<open>JavaScript values\<close>

text \<open>
  A JavaScript string is a sequence of UTF-16 code units. A header of a switch event
  that is absent reads as \<open>undefined\<close>, here \<open>None\<close>. Times are milliseconds
  since the epoch (\<open>Date.now()\<close>); every handler reads the clock once, its
  argument \<open>now\<close>.
\<close>

type_synonym jsstring = "16 word list"

definition js :: "string \<Rightarrow> jsstring" where
  "js s = map (\<lambda>c. of_nat (of_char c)) s"

definition truthy :: "jsstring option \<Rightarrow> bool" where
  "truthy v = (case v of None \<Rightarrow> False | Some s \<Rightarrow> s \<noteq> [])"

definition js_or :: "jsstring option \<Rightarrow> jsstring option \<Rightarrow> jsstring option" where
  "js_or a b = (if truthy a then a else b)"

definition str_or :: "string \<Rightarrow> string \<Rightarrow> string" where
  "str_or a d = (if a = [] then d else a)"

definition opt_or :: "string option \<Rightarrow> string \<Rightarrow> string" where
  "opt_or a d = (case a of None \<Rightarrow> d | Some s \<Rightarrow> str_or s d)"

definition num_or :: "real \<Rightarrow> real \<Rightarrow> real" where
  "num_or a d = (if a = 0 then d else a)"

definition Math_round :: "real \<Rightarrow> int" where
  "Math_round x = \<lfloor>x + 1 / 2\<rfloor>"

section \<open>Data\<close>

text \<open>
  An event of the switch is its header bag. \<open>speech_confidence\<close> is
  \<open>parseFloat\<close> of the header \<open>Speech-Confidence\<close>, \<open>None\<close> when that is NaN.
\<close>

record esl_event =
  headers :: "string \<Rightarrow> jsstring option"
  speech_confidence :: "real option"

record transcript_event =
  ev_type :: string
  ev_callSid :: jsstring
  ev_text :: jsstring
  ev_speaker :: string
  ev_timestamp :: int
  ev_confidence :: real
  ev_vendor :: string
  ev_language :: "string option"

record cached_event =
  cached_data :: transcript_event
  cached_at :: int

record call_event =
  ce_type :: string
  ce_application :: "jsstring option"
  ce_data :: "jsstring option"
  ce_timestamp :: int

record call_session =
  callSid :: jsstring
  callerNumber :: "jsstring option"
  destinationNumber :: "jsstring option"
  startTime :: int
  answerTime :: "int option"
  endTime :: "int option"
  hangupCause :: "jsstring option"
  events :: "call_event list"

record 'a job =
  job_name :: string
  job_data :: 'a
  priority :: nat
  attempts :: nat
  backoff :: "nat option"

record batch_data =
  bd_type :: string
  bd_callSid :: jsstring
  bd_callData :: call_session
  bd_transcriptSegments :: "cached_event list"

text \<open>
  The rows handed to the store. Generated identifiers (\<open>uuidv4()\<close>), \<open>created_at\<close>
  and the JSON \<open>metadata\<close> column are left out.
\<close>

record segment =
  call_sid :: jsstring
  segment_type :: string
  seg_text :: jsstring
  speaker :: string
  start_time :: int
  end_time :: "int option"
  confidence :: real
  language :: "string option"
  vendor :: string
  source_type :: string

record call_transcript =
  ct_call_sid :: jsstring
  caller_number :: "jsstring option"
  destination_number :: "jsstring option"
  ct_start_time :: int
  answer_time :: "int option"
  ct_end_time :: "int option"
  duration :: "int option"
  hangup_cause :: "jsstring option"
  total_segments :: nat
  languages :: string
  status :: string

text \<open>
  The store (\<open>DatabaseManager\<close>): its insert operations log the rows and succeed;
  the tables are the rows received so far.
\<close>

record database =
  call_transcripts :: "call_transcript list"
  transcript_segments :: "segment list"

definition insertCallTranscript :: "call_transcript \<Rightarrow> database \<Rightarrow> database" where
  "insertCallTranscript ct db = db\<lparr>call_transcripts := call_transcripts db @ [ct]\<rparr>"

definition insertTranscriptSegment :: "segment \<Rightarrow> database \<Rightarrow> database" where
  "insertTranscriptSegment sg db = db\<lparr>transcript_segments := transcript_segments db @ [sg]\<rparr>"

definition insertTranscriptSegments :: "segment list \<Rightarrow> database \<Rightarrow> database" where
  "insertTranscriptSegments sgs db =
     (if sgs = [] then db else db\<lparr>transcript_segments := transcript_segments db @ sgs\<rparr>)"

section \<open>TranscriptProcessor\<close>

text \<open>
  The queues are the jobs added so far. Before \<open>initialize()\<close> the object
  \<open>this.queues\<close> is empty, so \<open>this.queues.tts.add\<close> throws, and the
  \<open>catch\<close> of the calling method logs the error and returns. Every \<open>await\<close> is
  taken to complete before the next event is handled.
\<close>

record processor =
  isInitialized :: bool
  q_tts :: "transcript_event job list"
  q_stt :: "transcript_event job list"
  q_batch :: "batch_data job list"
  activeCallTranscripts :: "jsstring \<Rightarrow> cached_event list option"
  processedEvents :: nat
  lastPerformanceReport :: int

definition new_processor :: "int \<Rightarrow> processor" where
  "new_processor now =
     \<lparr>isInitialized = False, q_tts = [], q_stt = [], q_batch = [],
      activeCallTranscripts = (\<lambda>_. None), processedEvents = 0,
      lastPerformanceReport = now\<rparr>"

definition initialize :: "processor \<Rightarrow> processor" where
  "initialize p = p\<lparr>isInitialized := True\<rparr>"

definition reportPerformance :: "processor \<Rightarrow> processor" where
  "reportPerformance p = p\<lparr>processedEvents := 0\<rparr>"

definition trackProcessedEvent :: "int \<Rightarrow> processor \<Rightarrow> processor" where
  "trackProcessedEvent now p =
     (let p1 = p\<lparr>processedEvents := processedEvents p + 1\<rparr>
      in if now - lastPerformanceReport p1 > 60000
         then (reportPerformance p1)\<lparr>lastPerformanceReport := now\<rparr>
         else p1)"

definition addToCallCache :: "jsstring \<Rightarrow> transcript_event \<Rightarrow> int \<Rightarrow> processor \<Rightarrow> processor" where
  "addToCallCache sid eventData now p =
     (let old = (case activeCallTranscripts p sid of None \<Rightarrow> [] | Some xs \<Rightarrow> xs);
          pushed = old @ [\<lparr>cached_data = eventData, cached_at = now\<rparr>];
          cache = (if length pushed > 100 then drop (length pushed - 100) pushed else pushed)
      in p\<lparr>activeCallTranscripts := (activeCallTranscripts p)(sid \<mapsto> cache)\<rparr>)"

definition processTTSEvent :: "transcript_event \<Rightarrow> int \<Rightarrow> processor \<Rightarrow> processor" where
  "processTTSEvent eventData now p =
     (if isInitialized p
      then trackProcessedEvent now
             (addToCallCache (ev_callSid eventData) eventData now
                (p\<lparr>q_tts := q_tts p @
                   [\<lparr>job_name = ''tts-event'', job_data = eventData, priority = 10,
                     attempts = 3, backoff = Some 1000\<rparr>]\<rparr>))
      else p)"

definition processSTTEvent :: "transcript_event \<Rightarrow> int \<Rightarrow> processor \<Rightarrow> processor" where
  "processSTTEvent eventData now p =
     (if isInitialized p
      then trackProcessedEvent now
             (addToCallCache (ev_callSid eventData) eventData now
                (p\<lparr>q_stt := q_stt p @
                   [\<lparr>job_name = ''stt-event'', job_data = eventData, priority = 10,
                     attempts = 3, backoff = Some 1000\<rparr>]\<rparr>))
      else p)"

definition processCallComplete :: "call_session \<Rightarrow> int \<Rightarrow> processor \<Rightarrow> processor" where
  "processCallComplete callData now p =
     (let cachedTranscript = activeCallTranscripts p (callSid callData);
          nonempty = (case cachedTranscript of None \<Rightarrow> False | Some xs \<Rightarrow> length xs > 0)
      in if nonempty \<and> \<not> isInitialized p then p
         else
           (let p1 = (if nonempty
                      then p\<lparr>q_batch := q_batch p @
                             [\<lparr>job_name = ''batch-insert'',
                               job_data = \<lparr>bd_type = ''call_complete'',
                                           bd_callSid = callSid callData,
                                           bd_callData = callData,
                                           bd_transcriptSegments =
                                             (case cachedTranscript of None \<Rightarrow> [] | Some xs \<Rightarrow> xs)\<rparr>,
                               priority = 8, attempts = 3, backoff = None\<rparr>]\<rparr>
                      else p);
                p2 = p1\<lparr>activeCallTranscripts :=
                          (activeCallTranscripts p1)(callSid callData := None)\<rparr>
            in trackProcessedEvent now p2))"

definition shutdown :: "processor \<Rightarrow> processor" where
  "shutdown p = p\<lparr>activeCallTranscripts := (\<lambda>_. None)\<rparr>"

subsection \<open>Queue job processors\<close>

definition processTTSJob :: "transcript_event \<Rightarrow> database \<Rightarrow> database" where
  "processTTSJob eventData db =
     insertTranscriptSegment
       \<lparr>call_sid = ev_callSid eventData, segment_type = ''tts'', seg_text = ev_text eventData,
        speaker = str_or (ev_speaker eventData) ''agent'',
        start_time = ev_timestamp eventData, end_time = None,
        confidence = num_or (ev_confidence eventData) 1,
        language = Some (opt_or (ev_language eventData) ''bn-IN''),
        vendor = str_or (ev_vendor eventData) ''system'',
        source_type = ''tts_generated''\<rparr> db"

definition processSTTJob :: "transcript_event \<Rightarrow> database \<Rightarrow> database" where
  "processSTTJob eventData db =
     insertTranscriptSegment
       \<lparr>call_sid = ev_callSid eventData, segment_type = ''stt'', seg_text = ev_text eventData,
        speaker = str_or (ev_speaker eventData) ''caller'',
        start_time = ev_timestamp eventData, end_time = Some (ev_timestamp eventData),
        confidence = num_or (ev_confidence eventData) (8 / 10),
        language = Some (opt_or (ev_language eventData) ''bn-BD''),
        vendor = str_or (ev_vendor eventData) ''google'',
        source_type = ''stt_realtime''\<rparr> db"

text \<open>\<open>[...new Set(xs)]\<close>: the distinct elements in the order of their first occurrence.\<close>

definition js_set :: "'a list \<Rightarrow> 'a list" where
  "js_set xs = foldl (\<lambda>acc x. if x \<in> set acc then acc else acc @ [x]) [] xs"

text \<open>\<open>xs.join(',')\<close>; an \<open>undefined\<close> element is rendered as the empty string.\<close>

fun join_comma :: "string list \<Rightarrow> string" where
  "join_comma [] = []"
| "join_comma [x] = x"
| "join_comma (x # y # ys) = x @ '','' @ join_comma (y # ys)"

definition detected_languages :: "cached_event list \<Rightarrow> string option list" where
  "detected_languages segs = js_set (map (\<lambda>s. ev_language (cached_data s)) segs)"

text \<open>\<open>s.replace(pat, '')\<close> with a string pattern: the first occurrence is removed.\<close>

fun remove_first :: "string \<Rightarrow> string \<Rightarrow> string" where
  "remove_first pat [] = []"
| "remove_first pat (c # cs) =
     (if pat \<noteq> [] \<and> take (length pat) (c # cs) = pat then drop (length pat) (c # cs)
      else c # remove_first pat cs)"

definition persisted_segment :: "jsstring \<Rightarrow> cached_event \<Rightarrow> segment" where
  "persisted_segment sid s =
     (let e = cached_data s in
      \<lparr>call_sid = sid,
       segment_type = (if ev_type e = ''tts_start'' then ''tts''
                       else remove_first ''_detected'' (ev_type e)),
       seg_text = ev_text e, speaker = ev_speaker e,
       start_time = ev_timestamp e, end_time = Some (ev_timestamp e),
       confidence = ev_confidence e, language = ev_language e, vendor = ev_vendor e,
       source_type = ev_type e\<rparr>)"

definition call_duration :: "call_session \<Rightarrow> int option" where
  "call_duration callData =
     (case endTime callData of
        None \<Rightarrow> None
      | Some e \<Rightarrow> Some (Math_round (real_of_int (e - startTime callData) / 1000)))"

definition build_callTranscript :: "batch_data \<Rightarrow> call_transcript" where
  "build_callTranscript batchData =
     (let callData = bd_callData batchData; transcriptSegments = bd_transcriptSegments batchData in
      \<lparr>ct_call_sid = bd_callSid batchData,
       caller_number = callerNumber callData,
       destination_number = destinationNumber callData,
       ct_start_time = startTime callData,
       answer_time = (case answerTime callData of None \<Rightarrow> None
                      | Some t \<Rightarrow> if t = 0 then None else Some t),
       ct_end_time = endTime callData,
       duration = call_duration callData,
       hangup_cause = hangupCause callData,
       total_segments = length transcriptSegments,
       languages = join_comma (map (\<lambda>l. case l of None \<Rightarrow> [] | Some s \<Rightarrow> s)
                                 (detected_languages transcriptSegments)),
       status = ''completed''\<rparr>)"

definition processBatchCallComplete :: "batch_data \<Rightarrow> database \<Rightarrow> database" where
  "processBatchCallComplete batchData db =
     (let db1 = insertCallTranscript (build_callTranscript batchData) db
      in if length (bd_transcriptSegments batchData) > 0
         then insertTranscriptSegments
                (map (persisted_segment (bd_callSid batchData)) (bd_transcriptSegments batchData)) db1
         else db1)"

definition processBatchInsert :: "batch_data \<Rightarrow> database \<Rightarrow> database" where
  "processBatchInsert batchData db =
     (if bd_type batchData = ''call_complete'' then processBatchCallComplete batchData db else db)"

subsection \<open>Recording batch transcription\<close>

text \<open>
  What \<open>processRecordingJob\<close> reads from outside: the environment variable
  \<open>GOOGLE_APPLICATION_CREDENTIALS\<close>, whether the recording file can be accessed, and
  the answer of the transcription provider (\<open>Inl\<close> when the call throws; the
  \<open>results\<close> field may be missing).
\<close>

datatype job_error = ProviderError | TypeError

datatype recording_result = NotProcessed string | Processed nat

record recording_data =
  rd_callSid :: jsstring
  recordingPath :: jsstring
  rd_timestamp :: int

record stt_alternative =
  transcript :: "jsstring option"
  alt_confidence :: "real option"
  alt_words :: "(int option \<times> int option) list option"

record stt_result =
  alternatives :: "stt_alternative list"
  speakerTag :: "nat option"

record recording_env =
  credentials :: "jsstring option"
  file_accessible :: bool
  recognize :: "job_error + stt_result list option"

definition js_whitespace :: "16 word \<Rightarrow> bool" where
  "js_whitespace c =
     (c \<in> {0x09, 0x0A, 0x0B, 0x0C, 0x0D, 0x20, 0xA0, 0x1680, 0x2028, 0x2029, 0x202F,
            0x205F, 0x3000, 0xFEFF} \<or> (0x2000 \<le> c \<and> c \<le> 0x200A))"

definition trim_truthy :: "jsstring \<Rightarrow> bool" where
  "trim_truthy s = list_ex (\<lambda>c. \<not> js_whitespace c) s"

definition seconds_or_0 :: "int option \<Rightarrow> int" where
  "seconds_or_0 v = (case v of None \<Rightarrow> 0 | Some n \<Rightarrow> n)"

definition first_word_start :: "stt_alternative \<Rightarrow> int" where
  "first_word_start a =
     (case alt_words a of None \<Rightarrow> 0 | Some [] \<Rightarrow> 0 | Some (w # ws) \<Rightarrow> seconds_or_0 (fst w))"

definition last_word_end :: "stt_alternative \<Rightarrow> int" where
  "last_word_end a =
     (case alt_words a of None \<Rightarrow> 0 | Some [] \<Rightarrow> 0 | Some (w # ws) \<Rightarrow> seconds_or_0 (snd (last (w # ws))))"

fun build_segments :: "recording_data \<Rightarrow> nat \<Rightarrow> stt_result list \<Rightarrow> job_error + segment list" where
  "build_segments rd segmentIndex [] = Inr []"
| "build_segments rd segmentIndex (result # rest) =
     (case alternatives result of
        [] \<Rightarrow> Inl TypeError
      | alternative # _ \<Rightarrow>
          (if truthy (transcript alternative) \<and> trim_truthy (the (transcript alternative))
           then
             (let tag = (case speakerTag result of
                           None \<Rightarrow> (if segmentIndex mod 2 = 0 then 1 else 2)
                         | Some t \<Rightarrow> if t = 0 then (if segmentIndex mod 2 = 0 then 1 else 2) else t);
                  sg = \<lparr>call_sid = rd_callSid rd, segment_type = ''stt_batch'',
                        seg_text = the (transcript alternative),
                        speaker = (if tag = (1::nat) then ''caller'' else ''agent''),
                        start_time = rd_timestamp rd + first_word_start alternative * 1000,
                        end_time = Some (rd_timestamp rd + last_word_end alternative * 1000),
                        confidence = (case alt_confidence alternative of
                                        None \<Rightarrow> 9 / 10 | Some c \<Rightarrow> num_or c (9 / 10)),
                        language = Some ''bn-BD'', vendor = ''google'',
                        source_type = ''stt_batch''\<rparr>
              in case build_segments rd (segmentIndex + 1) rest of
                   Inl e \<Rightarrow> Inl e
                 | Inr sgs \<Rightarrow> Inr (sg # sgs))
           else build_segments rd segmentIndex rest))"

definition processRecordingJob ::
  "recording_env \<Rightarrow> recording_data \<Rightarrow> database \<Rightarrow> (job_error + recording_result) \<times> database" where
  "processRecordingJob env recordingData db =
     (if \<not> truthy (credentials env) then (Inr (NotProcessed ''No Google Cloud credentials''), db)
      else if \<not> file_accessible env then (Inr (NotProcessed ''Recording file not found''), db)
      else
        (case recognize env of
           Inl e \<Rightarrow> (Inl e, db)
         | Inr None \<Rightarrow> (Inr (Processed 0), db)
         | Inr (Some []) \<Rightarrow> (Inr (Processed 0), db)
         | Inr (Some (r # rs)) \<Rightarrow>
             (case build_segments recordingData 0 (r # rs) of
                Inl e \<Rightarrow> (Inl e, db)
              | Inr segments \<Rightarrow>
                  (Inr (Processed (length segments)),
                   if length segments > 0 then insertTranscriptSegments segments db else db))))"

text \<open>
  The broker's accounting of the recording lane: a job whose processor returns is
  counted as completed, a job whose processor throws as failed.
\<close>

record lane_counts =
  completed :: nat
  failed :: nat

definition settle_job :: "(job_error + recording_result) \<Rightarrow> lane_counts \<Rightarrow> lane_counts" where
  "settle_job r c =
     (case r of Inl e \<Rightarrow> c\<lparr>failed := failed c + 1\<rparr>
              | Inr v \<Rightarrow> c\<lparr>completed := completed c + 1\<rparr>)"

definition run_recording_job ::
  "recording_env \<Rightarrow> recording_data \<Rightarrow> database \<times> lane_counts \<Rightarrow> database \<times> lane_counts" where
  "run_recording_job env recordingData st =
     (let (r, db') = processRecordingJob env recordingData (fst st)
      in (db', settle_job r (snd st)))"

section \<open>FreeSWITCHListener\<close>

datatype broadcast = TranscriptUpdate transcript_event | TtsComplete jsstring int

text \<open>
  The listener object. \<open>broadcasts\<close> are the calls made to the broadcast callback,
  \<open>timers\<close> the delays of the reconnect timers set so far (\<open>setTimeout\<close>), and
  \<open>emitted\<close> the signals emitted so far. The optional performance monitor is absent.
\<close>

record listener =
  transcriptProcessor :: processor
  broadcastCallback :: bool
  broadcasts :: "(jsstring \<times> broadcast) list"
  isConnected :: bool
  reconnectAttempts :: int
  maxReconnectAttempts :: int
  reconnectDelay :: int
  eventCounts :: "string \<Rightarrow> nat option"
  lastStatsReport :: int
  activeCalls :: "jsstring \<Rightarrow> call_session option"
  timers :: "int list"
  emitted :: "string list"

text \<open>\<open>parseInt(process.env.X) || d\<close>: the argument is \<open>None\<close> when \<open>parseInt\<close> gives NaN.\<close>

definition env_int :: "int option \<Rightarrow> int \<Rightarrow> int" where
  "env_int v d = (case v of None \<Rightarrow> d | Some n \<Rightarrow> if n = 0 then d else n)"

definition new_listener :: "int option \<Rightarrow> int option \<Rightarrow> processor \<Rightarrow> bool \<Rightarrow> int \<Rightarrow> listener" where
  "new_listener envMax envDelay tp cb now =
     \<lparr>transcriptProcessor = tp, broadcastCallback = cb, broadcasts = [],
      isConnected = False, reconnectAttempts = 0,
      maxReconnectAttempts = env_int envMax 10, reconnectDelay = env_int envDelay 5000,
      eventCounts = (\<lambda>_. None), lastStatsReport = now, activeCalls = (\<lambda>_. None),
      timers = [], emitted = []\<rparr>"

definition getHeader :: "esl_event \<Rightarrow> string \<Rightarrow> jsstring option" where
  "getHeader event h = headers event h"

definition extractCallSid :: "esl_event \<Rightarrow> jsstring option" where
  "extractCallSid event =
     js_or (js_or (getHeader event ''variable_call_sid'') (getHeader event ''Unique-ID''))
           (getHeader event ''Core-UUID'')"

definition extractLanguage :: "jsstring \<Rightarrow> string option" where
  "extractLanguage txt =
     (if list_ex (\<lambda>c. 0x0980 \<le> c \<and> c \<le> 0x09FF) txt then Some ''bn-IN'' else None)"

definition reportStats :: "listener \<Rightarrow> listener" where
  "reportStats s = s\<lparr>eventCounts := (\<lambda>_. None)\<rparr>"

definition trackEvent :: "string \<Rightarrow> int \<Rightarrow> listener \<Rightarrow> listener" where
  "trackEvent eventType now s =
     (let count = (case eventCounts s eventType of None \<Rightarrow> 0 | Some c \<Rightarrow> c);
          s1 = s\<lparr>eventCounts := (eventCounts s)(eventType \<mapsto> count + 1)\<rparr>
      in if now - lastStatsReport s1 > 60000
         then (reportStats s1)\<lparr>lastStatsReport := now\<rparr>
         else s1)"

definition addCallEvent :: "jsstring \<Rightarrow> call_event \<Rightarrow> listener \<Rightarrow> listener" where
  "addCallEvent sid eventData s =
     (case activeCalls s sid of
        None \<Rightarrow> s
      | Some call \<Rightarrow> s\<lparr>activeCalls := (activeCalls s)(sid \<mapsto> call\<lparr>events := events call @ [eventData]\<rparr>)\<rparr>)"

definition broadcast_to :: "jsstring \<Rightarrow> broadcast \<Rightarrow> listener \<Rightarrow> listener" where
  "broadcast_to sid msg s =
     (if broadcastCallback s then s\<lparr>broadcasts := broadcasts s @ [(sid, msg)]\<rparr> else s)"

definition listener_processCallComplete :: "call_session \<Rightarrow> int \<Rightarrow> listener \<Rightarrow> listener" where
  "listener_processCallComplete call now s =
     s\<lparr>transcriptProcessor := processCallComplete call now (transcriptProcessor s)\<rparr>"

definition handleChannelCreate :: "int \<Rightarrow> esl_event \<Rightarrow> listener \<Rightarrow> listener" where
  "handleChannelCreate now event s =
     (let sid = extractCallSid event;
          callerNumber = getHeader event ''Caller-Caller-ID-Number'';
          destinationNumber = getHeader event ''Caller-Destination-Number''
      in if truthy sid
         then trackEvent ''CHANNEL_CREATE'' now
                (s\<lparr>activeCalls := (activeCalls s)(the sid \<mapsto>
                     \<lparr>callSid = the sid, callerNumber = callerNumber,
                      destinationNumber = destinationNumber, startTime = now,
                      answerTime = None, endTime = None, hangupCause = None, events = []\<rparr>)\<rparr>)
         else s)"

definition handleChannelAnswer :: "int \<Rightarrow> esl_event \<Rightarrow> listener \<Rightarrow> listener" where
  "handleChannelAnswer now event s =
     (let sid = extractCallSid event
      in if truthy sid \<and> activeCalls s (the sid) \<noteq> None
         then (let call = the (activeCalls s (the sid))
               in trackEvent ''CHANNEL_ANSWER'' now
                    (s\<lparr>activeCalls := (activeCalls s)(the sid \<mapsto> call\<lparr>answerTime := Some now\<rparr>)\<rparr>))
         else s)"

definition handleChannelHangup :: "int \<Rightarrow> esl_event \<Rightarrow> listener \<Rightarrow> listener" where
  "handleChannelHangup now event s =
     (let sid = extractCallSid event;
          cause = getHeader event ''Hangup-Cause''
      in if truthy sid \<and> activeCalls s (the sid) \<noteq> None
         then (let call = (the (activeCalls s (the sid)))\<lparr>endTime := Some now, hangupCause := cause\<rparr>;
                   s1 = s\<lparr>activeCalls := (activeCalls s)(the sid \<mapsto> call)\<rparr>;
                   s2 = listener_processCallComplete call now s1;
                   s3 = s2\<lparr>activeCalls := (activeCalls s2)(the sid := None)\<rparr>
               in trackEvent ''CHANNEL_HANGUP'' now s3)
         else s)"

definition ttsData :: "jsstring \<Rightarrow> jsstring \<Rightarrow> int \<Rightarrow> transcript_event" where
  "ttsData sid applicationData now =
     \<lparr>ev_type = ''tts_start'', ev_callSid = sid, ev_text = applicationData,
      ev_speaker = ''agent'', ev_timestamp = now, ev_confidence = 1, ev_vendor = ''system'',
      ev_language = Some (opt_or (extractLanguage applicationData) ''bn-IN'')\<rparr>"

definition handleChannelExecute :: "int \<Rightarrow> esl_event \<Rightarrow> listener \<Rightarrow> listener" where
  "handleChannelExecute now event s =
     (let application = getHeader event ''Application'';
          applicationData = getHeader event ''Application-Data'';
          sid = extractCallSid event;
          s1 = (if application = Some (js ''speak'') \<and> truthy applicationData \<and> truthy sid
                then (let d = ttsData (the sid) (the applicationData) now;
                          sa = s\<lparr>transcriptProcessor := processTTSEvent d now (transcriptProcessor s)\<rparr>;
                          sb = broadcast_to (the sid) (TranscriptUpdate d) sa
                      in trackEvent ''TTS_START'' now sb)
                else s)
      in if truthy sid
         then addCallEvent (the sid)
                \<lparr>ce_type = ''execute'', ce_application = application, ce_data = applicationData,
                 ce_timestamp = now\<rparr> s1
         else s1)"

definition handleChannelExecuteComplete :: "int \<Rightarrow> esl_event \<Rightarrow> listener \<Rightarrow> listener" where
  "handleChannelExecuteComplete now event s =
     (let application = getHeader event ''Application'';
          sid = extractCallSid event
      in if application = Some (js ''speak'') \<and> truthy sid
         then trackEvent ''TTS_COMPLETE'' now (broadcast_to (the sid) (TtsComplete (the sid) now) s)
         else s)"

definition sttData :: "jsstring \<Rightarrow> jsstring \<Rightarrow> real option \<Rightarrow> int \<Rightarrow> transcript_event" where
  "sttData sid speechResult conf now =
     \<lparr>ev_type = ''stt_detected'', ev_callSid = sid, ev_text = speechResult,
      ev_speaker = ''caller'', ev_timestamp = now,
      ev_confidence = (case conf of None \<Rightarrow> 8 / 10 | Some c \<Rightarrow> num_or c (8 / 10)),
      ev_vendor = ''google'', ev_language = Some ''bn-BD''\<rparr>"

definition handleDetectedSpeech :: "int \<Rightarrow> esl_event \<Rightarrow> listener \<Rightarrow> listener" where
  "handleDetectedSpeech now event s =
     (let speechResult = getHeader event ''Speech-Result'';
          sid = extractCallSid event
      in if truthy speechResult \<and> truthy sid
         then (let d = sttData (the sid) (the speechResult) (speech_confidence event) now;
                   sa = s\<lparr>transcriptProcessor := processSTTEvent d now (transcriptProcessor s)\<rparr>;
                   sb = broadcast_to (the sid) (TranscriptUpdate d) sa
               in trackEvent ''STT_DETECTED'' now sb)
         else s)"

subsection \<open>Event dispatch\<close>

datatype esl_msg =
    CHANNEL_CREATE esl_event
  | CHANNEL_ANSWER esl_event
  | CHANNEL_HANGUP esl_event
  | CHANNEL_EXECUTE esl_event
  | CHANNEL_EXECUTE_COMPLETE esl_event
  | DETECTED_SPEECH esl_event

fun dispatch :: "int \<Rightarrow> esl_msg \<Rightarrow> listener \<Rightarrow> listener" where
  "dispatch now (CHANNEL_CREATE e) s = handleChannelCreate now e s"
| "dispatch now (CHANNEL_ANSWER e) s = handleChannelAnswer now e s"
| "dispatch now (CHANNEL_HANGUP e) s = handleChannelHangup now e s"
| "dispatch now (CHANNEL_EXECUTE e) s = handleChannelExecute now e s"
| "dispatch now (CHANNEL_EXECUTE_COMPLETE e) s = handleChannelExecuteComplete now e s"
| "dispatch now (DETECTED_SPEECH e) s = handleDetectedSpeech now e s"

fun run :: "(int \<times> esl_msg) list \<Rightarrow> listener \<Rightarrow> listener" where
  "run [] s = s"
| "run ((now, m) # ms) s = run ms (dispatch now m s)"

subsection \<open>Connection and reconnection\<close>

definition handleDisconnection :: "listener \<Rightarrow> listener" where
  "handleDisconnection s =
     (if reconnectAttempts s \<ge> maxReconnectAttempts s
      then s\<lparr>emitted := emitted s @ [''max_reconnects_reached'']\<rparr>
      else s\<lparr>reconnectAttempts := reconnectAttempts s + 1,
             timers := timers s @ [reconnectDelay s]\<rparr>)"

text \<open>
  What the connection reports: \<open>esl::ready\<close> (handled in \<open>connect\<close>),
  \<open>esl::end\<close> and \<open>error\<close> (handled in \<open>setupEventHandlers\<close>), and the
  failure of the \<open>connect()\<close> made by a reconnect timer (its \<open>catch\<close>).
\<close>

datatype conn_event = EslReady | EslEnd | EslError | ReconnectFailed

fun conn_step :: "conn_event \<Rightarrow> listener \<Rightarrow> listener" where
  "conn_step EslReady s = s\<lparr>isConnected := True, reconnectAttempts := 0\<rparr>"
| "conn_step EslEnd s = handleDisconnection (s\<lparr>isConnected := False\<rparr>)"
| "conn_step EslError s = handleDisconnection (s\<lparr>isConnected := False\<rparr>)"
| "conn_step ReconnectFailed s = handleDisconnection s"

fun conn_run :: "conn_event list \<Rightarrow> listener \<Rightarrow> listener" where
  "conn_run [] s = s"
| "conn_run (e # es) s = conn_run es (conn_step e s)"

subsection \<open>Queue workers\<close>

text \<open>
  The workers registered in \<open>setupQueueProcessors\<close>: every job of a lane is given to
  the lane's processor. The rows of different lanes do not depend on each other, so
  the lanes are run one after the other.
\<close>

definition run_jobs :: "processor \<Rightarrow> database \<Rightarrow> database" where
  "run_jobs p db =
     foldl (\<lambda>d j. processBatchInsert (job_data j) d)
       (foldl (\<lambda>d j. processSTTJob (job_data j) d)
          (foldl (\<lambda>d j. processTTSJob (job_data j) d) db (q_tts p))
          (q_stt p))
       (q_batch p)"

section \<open>Invariants\<close>

definition cache_bounded :: "processor \<Rightarrow> bool" where
  "cache_bounded p = (\<forall>sid xs. activeCallTranscripts p sid = Some xs \<longrightarrow> length xs \<le> 100)"

definition batch_bounded :: "processor \<Rightarrow> bool" where
  "batch_bounded p = (\<forall>j \<in> set (q_batch p). length (bd_transcriptSegments (job_data j)) \<le> 100)"

definition proc_bounded :: "listener \<Rightarrow> bool" where
  "proc_bounded s = (cache_bounded (transcriptProcessor s) \<and> batch_bounded (transcriptProcessor s))"

definition reconnect_inv :: "int \<Rightarrow> int \<Rightarrow> listener \<Rightarrow> bool" where
  "reconnect_inv m d s =
     (maxReconnectAttempts s = m \<and> reconnectDelay s = d \<and> 0 \<le> reconnectAttempts s \<and>
      reconnectAttempts s \<le> max 0 m \<and> set (timers s) \<subseteq> {d})"

section \<open>Example inputs\<close>

text \<open>
  One event carrying every header the handlers read, for call id \<open>C1\<close>; the same event
  with a Bengali synthesis text; and a listener as the server builds it, with an
  initialised processor and a broadcast callback.
\<close>

definition demo_event :: esl_event where
  "demo_event =
     \<lparr>headers = ((\<lambda>_. None)(''Unique-ID'' \<mapsto> js ''C1'', ''Application'' \<mapsto> js ''speak'',
        ''Application-Data'' \<mapsto> js ''hello'', ''Speech-Result'' \<mapsto> js ''yes'',
        ''Hangup-Cause'' \<mapsto> js ''NORMAL_CLEARING'')),
      speech_confidence = Some (85 / 100)\<rparr>"

definition demo_event_bn :: esl_event where
  "demo_event_bn =
     \<lparr>headers = ((\<lambda>_. None)(''Unique-ID'' \<mapsto> js ''C1'', ''Application'' \<mapsto> js ''speak'',
        ''Application-Data'' \<mapsto> [0x9B9, 0x9CD, 0x9AF, 0x9BE, 0x9B2, 0x9CB])),
      speech_confidence = None\<rparr>"

definition demo_listener :: listener where
  "demo_listener = new_listener None None (initialize (new_processor 0)) True 0"

definition demo_call :: call_session where
  "demo_call =
     \<lparr>callSid = js ''C1'', callerNumber = Some (js ''01710000000''),
      destinationNumber = Some (js ''01800000000''), startTime = 0, answerTime = None,
      endTime = Some 1500, hangupCause = Some (js ''NORMAL_CLEARING''), events = []\<rparr>"

definition demo_batch :: batch_data where
  "demo_batch =
     \<lparr>bd_type = ''call_complete'', bd_callSid = js ''C1'', bd_callData = demo_call,
      bd_transcriptSegments =
        [\<lparr>cached_data = ttsData (js ''C1'') (js ''hello'') 100, cached_at = 100\<rparr>,
         \<lparr>cached_data = sttData (js ''C1'') (js ''yes'') None 700, cached_at = 700\<rparr>,
         \<lparr>cached_data = sttData (js ''C1'') (js ''no'') None 900, cached_at = 900\<rparr>]\<rparr>"

definition demo_db :: database where
  "demo_db = \<lparr>call_transcripts = [], transcript_segments = []\<rparr>"

definition demo_recording :: recording_data where
  "demo_recording = \<lparr>rd_callSid = js ''C1'', recordingPath = js ''/tmp/c1.wav'', rd_timestamp = 50\<rparr>"

definition demo_env_no_credentials :: recording_env where
  "demo_env_no_credentials =
     \<lparr>credentials = None, file_accessible = True,
      recognize = Inr (Some [\<lparr>alternatives = [\<lparr>transcript = Some (js ''yes''),
          alt_confidence = None, alt_words = None\<rparr>], speakerTag = None\<rparr>])\<rparr>"

text \<open>
  Two runs of call \<open>C1\<close>: a synthesis whose completion arrives before the hangup, and
  one where the hangup comes first.
\<close>

definition trace_completed :: "(int \<times> esl_msg) list" where
  "trace_completed =
     [(1, CHANNEL_CREATE demo_event), (2, CHANNEL_EXECUTE demo_event),
      (3, CHANNEL_EXECUTE_COMPLETE demo_event), (7, CHANNEL_HANGUP demo_event)]"

definition trace_hangup_first :: "(int \<times> esl_msg) list" where
  "trace_hangup_first =
     [(1, CHANNEL_CREATE demo_event), (2, CHANNEL_EXECUTE demo_event),
      (7, CHANNEL_HANGUP demo_event)]"

text \<open>A listener configured with \<open>MAX_RECONNECT_ATTEMPTS=2\<close> and the default delay.\<close>

definition demo_reconnect :: listener where
  "demo_reconnect = new_listener (Some 2) None (initialize (new_processor 0)) True 0"

section \<open>Unfolding sets\<close>

lemmas js_defs = js_def truthy_def js_or_def str_or_def opt_or_def num_or_def

lemmas processor_defs = new_processor_def initialize_def reportPerformance_def
  trackProcessedEvent_def addToCallCache_def processTTSEvent_def processSTTEvent_def
  processCallComplete_def

lemmas listener_defs = new_listener_def env_int_def getHeader_def extractCallSid_def
  extractLanguage_def reportStats_def trackEvent_def addCallEvent_def broadcast_to_def
  listener_processCallComplete_def handleChannelCreate_def handleChannelAnswer_def
  handleChannelHangup_def ttsData_def handleChannelExecute_def
  handleChannelExecuteComplete_def sttData_def handleDetectedSpeech_def

lemmas demo_defs = demo_event_def demo_event_bn_def demo_listener_def demo_call_def
  demo_batch_def demo_db_def demo_recording_def demo_env_no_credentials_def
  trace_completed_def trace_hangup_first_def

section \<open>What the counters and the broadcast leave alone\<close>

lemma trackEvent_activeCalls: "activeCalls (trackEvent t now s) = activeCalls s"
  by (simp add: trackEvent_def reportStats_def Let_def)

lemma trackEvent_transcriptProcessor:
  "transcriptProcessor (trackEvent t now s) = transcriptProcessor s"
  by (simp add: trackEvent_def reportStats_def Let_def)

lemma trackProcessedEvent_fields:
  "q_stt (trackProcessedEvent now p) = q_stt p"
  "q_tts (trackProcessedEvent now p) = q_tts p"
  "q_batch (trackProcessedEvent now p) = q_batch p"
  "activeCallTranscripts (trackProcessedEvent now p) = activeCallTranscripts p"
  "isInitialized (trackProcessedEvent now p) = isInitialized p"
  by (simp_all add: trackProcessedEvent_def reportPerformance_def Let_def)

lemma addToCallCache_fields:
  "q_stt (addToCallCache sid d now p) = q_stt p"
  "q_tts (addToCallCache sid d now p) = q_tts p"
  "q_batch (addToCallCache sid d now p) = q_batch p"
  "isInitialized (addToCallCache sid d now p) = isInitialized p"
  by (simp_all add: addToCallCache_def Let_def)

lemma broadcast_to_fields:
  "activeCalls (broadcast_to sid m s) = activeCalls s"
  "transcriptProcessor (broadcast_to sid m s) = transcriptProcessor s"
  by (simp_all add: broadcast_to_def)

section \<open>Recognition events and the active-call table\<close>

text \<open>
  Claim C2, as stated: a detected-speech event whose call id is not in the active-call
  table is discarded, with no segment created or queued. It fails: the listener has no
  call \<open>C1\<close>, and the event for \<open>C1\<close> still adds a job to the recognition queue and
  an entry to the per-call cache.
\<close>

theorem unknown_call_speech_counterexample:
  "activeCalls demo_listener (js ''C1'') = None \<and>
   extractCallSid demo_event = Some (js ''C1'') \<and>
   q_stt (transcriptProcessor (handleDetectedSpeech 5 demo_event demo_listener)) \<noteq>
     q_stt (transcriptProcessor demo_listener) \<and>
   activeCallTranscripts (transcriptProcessor (handleDetectedSpeech 5 demo_event demo_listener))
     (js ''C1'') \<noteq> None"
  by (simp add: listener_defs processor_defs js_defs demo_defs Let_def)

text \<open>
  Claim C2, amended: \<open>handleDetectedSpeech\<close> never consults the active-call table and
  never changes it. An event with a speech result and a call id is handed to
  \<open>processSTTEvent\<close>, which on an initialised processor appends one job to the
  recognition queue and the event to the cache of its call id; an event without a speech
  result or without a call id leaves the listener as it was; and when the queue cannot be
  reached (processor not initialised) the processor is left as it was, the exception
  being caught inside \<open>processSTTEvent\<close>.
\<close>

theorem speech_ignores_active_table:
  "(truthy (getHeader e ''Speech-Result'') \<and> truthy (extractCallSid e) \<longrightarrow>
      activeCalls (handleDetectedSpeech now e s) = activeCalls s \<and>
      transcriptProcessor (handleDetectedSpeech now e s) =
        processSTTEvent (sttData (the (extractCallSid e)) (the (getHeader e ''Speech-Result''))
                           (speech_confidence e) now) now (transcriptProcessor s)) \<and>
   (\<not> (truthy (getHeader e ''Speech-Result'') \<and> truthy (extractCallSid e)) \<longrightarrow>
      handleDetectedSpeech now e s = s) \<and>
   (isInitialized p \<longrightarrow>
      q_stt (processSTTEvent d now p) =
        q_stt p @ [\<lparr>job_name = ''stt-event'', job_data = d, priority = 10, attempts = 3,
                    backoff = Some 1000\<rparr>] \<and>
      (\<exists>xs. activeCallTranscripts (processSTTEvent d now p) (ev_callSid d) = Some xs \<and>
            xs \<noteq> [] \<and> last xs = \<lparr>cached_data = d, cached_at = now\<rparr>)) \<and>
   (\<not> isInitialized p \<longrightarrow> processSTTEvent d now p = p)"
  by (simp add: handleDetectedSpeech_def Let_def trackEvent_activeCalls
        trackEvent_transcriptProcessor broadcast_to_fields processSTTEvent_def
        trackProcessedEvent_fields addToCallCache_fields)
     (simp add: addToCallCache_def Let_def)

section \<open>Call creation\<close>

text \<open>
  Claim C3, as stated: a call-create for a call id that already has an entry leaves the
  existing session, with its event history, unchanged. It fails: after a create and an
  execute event the session of \<open>C1\<close> holds one event, and a second create replaces it.
\<close>

theorem create_not_idempotent_counterexample:
  "activeCalls (handleChannelExecute 2 demo_event (handleChannelCreate 1 demo_event demo_listener))
      (js ''C1'') \<noteq> None \<and>
   activeCalls (handleChannelCreate 3 demo_event
      (handleChannelExecute 2 demo_event (handleChannelCreate 1 demo_event demo_listener)))
      (js ''C1'') \<noteq>
   activeCalls (handleChannelExecute 2 demo_event (handleChannelCreate 1 demo_event demo_listener))
      (js ''C1'')"
  by (simp add: listener_defs processor_defs js_defs demo_defs Let_def)

text \<open>
  Claim C3, amended: a call-create event with a call id stores a fresh session under
  that id (start time now, empty event history, no answer or end time), replacing any
  session already there; the entries of all other call ids are unchanged.
\<close>

theorem create_replaces_session:
  "truthy (extractCallSid e) \<Longrightarrow>
     activeCalls (handleChannelCreate now e s) =
       (activeCalls s)(the (extractCallSid e) \<mapsto>
          \<lparr>callSid = the (extractCallSid e),
           callerNumber = getHeader e ''Caller-Caller-ID-Number'',
           destinationNumber = getHeader e ''Caller-Destination-Number'',
           startTime = now, answerTime = None, endTime = None, hangupCause = None,
           events = []\<rparr>)"
  by (simp add: handleChannelCreate_def Let_def trackEvent_activeCalls)

theorem create_replaces_session_witness:
  "truthy (extractCallSid demo_event) \<and>
   activeCalls (handleChannelExecute 2 demo_event (handleChannelCreate 1 demo_event demo_listener))
      (js ''C1'') \<noteq> None \<and>
   map_option events (activeCalls (handleChannelCreate 3 demo_event
      (handleChannelExecute 2 demo_event (handleChannelCreate 1 demo_event demo_listener)))
      (js ''C1'')) = Some []"
  using create_replaces_session [of demo_event 3
      "handleChannelExecute 2 demo_event (handleChannelCreate 1 demo_event demo_listener)"]
  by (simp add: listener_defs processor_defs js_defs demo_defs Let_def)

section \<open>Language of a synthesis text\<close>

text \<open>
  Claim C4, as stated: a synthesis text without a character of the Bengali block gets no
  language. It fails: \<open>hello\<close> has no such character, and the event queued for it
  carries a language.
\<close>

theorem language_unset_counterexample:
  "\<not> (\<exists>c \<in> set (js ''hello''). 0x0980 \<le> c \<and> c \<le> 0x09FF) \<and>
   map (\<lambda>j. ev_language (job_data j))
     (q_tts (transcriptProcessor (handleChannelExecute 2 demo_event demo_listener))) \<noteq> [None]"
  by (simp add: listener_defs processor_defs js_defs demo_defs Let_def)

lemma extractLanguage_Some:
  "(extractLanguage txt = Some ''bn-IN'') = (\<exists>c \<in> set txt. 0x0980 \<le> c \<and> c \<le> 0x09FF)"
  by (simp add: extractLanguage_def list_ex_iff)

lemma extractLanguage_None:
  "(extractLanguage txt = None) = (\<forall>c \<in> set txt. \<not> (0x0980 \<le> c \<and> c \<le> 0x09FF))"
  by (simp add: extractLanguage_def list_ex_iff)

text \<open>
  Claim C4, amended: \<open>extractLanguage\<close> gives \<open>bn-IN\<close> exactly when the text has a
  code unit in U+0980..U+09FF and no value otherwise; the synthesis event built by
  \<open>handleChannelExecute\<close> replaces a missing value by \<open>bn-IN\<close>, so its language is
  \<open>bn-IN\<close> for every text.
\<close>

theorem tts_language_default:
  "(extractLanguage txt = Some ''bn-IN'') = (\<exists>c \<in> set txt. 0x0980 \<le> c \<and> c \<le> 0x09FF) \<and>
   (extractLanguage txt = None) = (\<forall>c \<in> set txt. \<not> (0x0980 \<le> c \<and> c \<le> 0x09FF)) \<and>
   ev_language (ttsData sid txt now) = Some ''bn-IN''"
  by (simp add: extractLanguage_Some extractLanguage_None)
     (simp add: ttsData_def extractLanguage_def opt_or_def str_or_def)

theorem tts_language_default_witness:
  "extractLanguage [0x9B9, 0x9CD, 0x9AF, 0x9BE, 0x9B2, 0x9CB] = Some ''bn-IN'' \<and>
   extractLanguage (js ''hello'') = None \<and>
   ev_language (ttsData (js ''C1'') (js ''hello'') 2) = Some ''bn-IN'' \<and>
   ev_language (ttsData (js ''C1'') [0x9B9, 0x9CD, 0x9AF, 0x9BE, 0x9B2, 0x9CB] 2) = Some ''bn-IN''"
  using tts_language_default [of "[0x9B9, 0x9CD, 0x9AF, 0x9BE, 0x9B2, 0x9CB]" "js ''C1''" 2]
        tts_language_default [of "js ''hello''" "js ''C1''" 2]
  by (simp add: js_def)

section \<open>Hangup\<close>

lemma hangup_absent:
  "\<not> truthy (extractCallSid e) \<or> activeCalls s (the (extractCallSid e)) = None
     \<Longrightarrow> handleChannelHangup now e s = s"
  by (auto simp: handleChannelHangup_def Let_def)

lemma hangup_removes:
  "truthy (extractCallSid e) \<Longrightarrow>
     activeCalls (handleChannelHangup now e s) (the (extractCallSid e)) = None"
  by (simp add: handleChannelHangup_def Let_def trackEvent_activeCalls
      listener_processCallComplete_def)

text \<open>
  Claim C8: once a hangup event has been handled, a second hangup event for the same
  call id changes nothing: the whole listener, with the processor's queues and caches
  and the event counters, is as the first hangup left it.
\<close>

theorem hangup_idempotent:
  "extractCallSid e2 = extractCallSid e1 \<Longrightarrow>
     handleChannelHangup n2 e2 (handleChannelHangup n1 e1 s) = handleChannelHangup n1 e1 s"
proof (cases "truthy (extractCallSid e1)")
  case True
  assume eq: "extractCallSid e2 = extractCallSid e1"
  from True have "activeCalls (handleChannelHangup n1 e1 s) (the (extractCallSid e1)) = None"
    by (rule hangup_removes)
  with eq show ?thesis by (simp add: hangup_absent)
next
  case False
  assume eq: "extractCallSid e2 = extractCallSid e1"
  with False show ?thesis by (simp add: hangup_absent)
qed

theorem hangup_idempotent_witness:
  "extractCallSid demo_event = extractCallSid demo_event \<and>
   activeCalls (handleChannelCreate 1 demo_event demo_listener) (js ''C1'') \<noteq> None \<and>
   handleChannelHangup 9 demo_event
      (handleChannelHangup 7 demo_event (handleChannelCreate 1 demo_event demo_listener))
    = handleChannelHangup 7 demo_event (handleChannelCreate 1 demo_event demo_listener) \<and>
   activeCalls (handleChannelHangup 7 demo_event (handleChannelCreate 1 demo_event demo_listener))
      (js ''C1'') = None"
  using hangup_idempotent [of demo_event demo_event 9 7 "handleChannelCreate 1 demo_event demo_listener"]
  by (simp add: listener_defs processor_defs js_defs demo_defs Let_def)

lemmas job_defs = run_jobs_def processTTSJob_def processSTTJob_def processBatchInsert_def
  processBatchCallComplete_def build_callTranscript_def persisted_segment_def
  insertCallTranscript_def insertTranscriptSegment_def insertTranscriptSegments_def
  call_duration_def detected_languages_def js_set_def

theorem speech_ignores_active_table_witness:
  "truthy (getHeader demo_event ''Speech-Result'') \<and> truthy (extractCallSid demo_event) \<and>
   isInitialized (transcriptProcessor demo_listener) \<and>
   activeCalls demo_listener (js ''C1'') = None \<and>
   activeCalls (handleDetectedSpeech 5 demo_event demo_listener) = activeCalls demo_listener \<and>
   q_stt (transcriptProcessor (handleDetectedSpeech 5 demo_event demo_listener)) =
     [\<lparr>job_name = ''stt-event'',
       job_data = sttData (js ''C1'') (js ''yes'') (Some (85 / 100)) 5,
       priority = 10, attempts = 3, backoff = Some 1000\<rparr>] \<and>
   activeCallTranscripts (transcriptProcessor (handleDetectedSpeech 5 demo_event demo_listener))
     (js ''C1'') =
     Some [\<lparr>cached_data = sttData (js ''C1'') (js ''yes'') (Some (85 / 100)) 5, cached_at = 5\<rparr>] \<and>
   \<not> truthy (getHeader demo_event_bn ''Speech-Result'') \<and>
   handleDetectedSpeech 5 demo_event_bn demo_listener = demo_listener \<and>
   \<not> isInitialized (new_processor 0) \<and>
   processSTTEvent (sttData (js ''C1'') (js ''yes'') None 5) 5 (new_processor 0) = new_processor 0"
  using speech_ignores_active_table [of demo_event 5 demo_listener "transcriptProcessor demo_listener"
          "sttData (js ''C1'') (js ''yes'') (Some (85 / 100)) 5"]
        speech_ignores_active_table [of demo_event_bn 5 demo_listener "new_processor 0"
          "sttData (js ''C1'') (js ''yes'') None 5"]
  by (simp add: listener_defs processor_defs js_defs demo_defs Let_def)

section \<open>Synthesis completion\<close>

lemma execute_complete_leaves_processor:
  "transcriptProcessor (handleChannelExecuteComplete now e s) = transcriptProcessor s \<and>
   activeCalls (handleChannelExecuteComplete now e s) = activeCalls s"
  by (simp add: handleChannelExecuteComplete_def Let_def trackEvent_activeCalls
        trackEvent_transcriptProcessor broadcast_to_fields)

lemma tts_job_end_time:
  "map end_time (transcript_segments (processTTSJob d db)) =
     map end_time (transcript_segments db) @ [None]"
  by (simp add: processTTSJob_def insertTranscriptSegment_def)

lemma persisted_end_time:
  "end_time (persisted_segment sid c) = Some (start_time (persisted_segment sid c))"
  by (simp add: persisted_segment_def Let_def)

text \<open>
  Claim C1 says that the end time of a synthesis segment is set by the matching
  execute-complete event and stays unset when the hangup comes first. The code does
  neither (\<open>execute_complete_leaves_processor\<close>, \<open>tts_job_end_time\<close>,
  \<open>persisted_end_time\<close>). On the two runs of call \<open>C1\<close>, with the synthesis
  starting at time 2, completing at time 3 in the first run only, and the hangup at
  time 7, the store receives the same two rows: the row of the synthesis job without an
  end time, and the aggregated row with the end time 2, its own start time.
\<close>

theorem tts_completion_ignored:
  "map end_time (transcript_segments
      (run_jobs (transcriptProcessor (run trace_completed demo_listener)) demo_db)) = [None, Some 2] \<and>
   map end_time (transcript_segments
      (run_jobs (transcriptProcessor (run trace_hangup_first demo_listener)) demo_db)) = [None, Some 2]"
  by (simp add: listener_defs processor_defs js_defs demo_defs job_defs Let_def)

section \<open>The call-transcript record\<close>

lemma Math_round_div: "Math_round (real_of_int d / 1000) = (d + 500) div 1000"
proof -
  have "real_of_int d / 1000 + 1 / 2 = real_of_int (d + 500) / real_of_int 1000"
    by simp
  then show ?thesis
    unfolding Math_round_def by (simp only: floor_divide_of_int_eq)
qed

lemma Math_round_diff:
  "Math_round ((real_of_int a - real_of_int b) / 1000) = (a - b + 500) div 1000"
  using Math_round_div [of "a - b"] by simp

lemma js_set_foldl_set:
  "set (foldl (\<lambda>acc x. if x \<in> set acc then acc else acc @ [x]) acc xs) = set acc \<union> set xs"
  by (induction xs arbitrary: acc) auto

lemma js_set_foldl_distinct:
  "distinct acc \<Longrightarrow>
     distinct (foldl (\<lambda>acc x. if x \<in> set acc then acc else acc @ [x]) acc xs)"
  by (induction xs arbitrary: acc) auto

lemma set_js_set: "set (js_set xs) = set xs"
  by (simp add: js_set_def js_set_foldl_set)

lemma distinct_js_set: "distinct (js_set xs)"
  by (simp add: js_set_def js_set_foldl_distinct)

lemma remdups_snoc:
  "remdups (ys @ [x]) = filter (\<lambda>y. y \<noteq> x) (remdups ys) @ [x]"
  by (induction ys) auto

lemma first_occ_Cons:
  "rev (remdups (rev (x # xs))) = x # filter (\<lambda>y. y \<noteq> x) (rev (remdups (rev xs)))"
  by (simp add: remdups_snoc rev_filter)

lemma js_set_foldl_first_occ:
  "distinct acc \<Longrightarrow>
   foldl (\<lambda>acc x. if x \<in> set acc then acc else acc @ [x]) acc xs =
     acc @ filter (\<lambda>x. x \<notin> set acc) (rev (remdups (rev xs)))"
proof (induction xs arbitrary: acc)
  case Nil
  then show ?case by simp
next
  case (Cons x xs)
  show ?case
  proof (cases "x \<in> set acc")
    case True
    then have "filter (\<lambda>y. y \<notin> set acc) (filter (\<lambda>y. y \<noteq> x) (rev (remdups (rev xs)))) =
        filter (\<lambda>y. y \<notin> set acc) (rev (remdups (rev xs)))"
      by (auto intro: filter_cong)
    with True Cons show ?thesis
      by (simp only: first_occ_Cons foldl_Cons if_True filter.simps) simp
  next
    case False
    have "filter (\<lambda>y. y \<notin> set (acc @ [x])) (rev (remdups (rev xs))) =
        filter (\<lambda>y. y \<notin> set acc) (filter (\<lambda>y. y \<noteq> x) (rev (remdups (rev xs))))"
      by (auto intro: filter_cong)
    moreover from False Cons.prems have "distinct (acc @ [x])" by simp
    ultimately show ?thesis
      using False Cons.IH [of "acc @ [x]"]
      by (simp only: first_occ_Cons foldl_Cons if_False filter.simps) simp
  qed
qed

lemma js_set_first_occ: "js_set xs = rev (remdups (rev xs))"
  using js_set_foldl_first_occ [of "[]" xs] by (simp add: js_set_def)

lemma js_set_Cons: "js_set (x # xs) = x # filter (\<lambda>y. y \<noteq> x) (js_set xs)"
  by (simp only: js_set_first_occ first_occ_Cons)

text \<open>
  Claim C5, as stated: the duration of the record is the end time minus the start time.
  It fails: the times are in milliseconds and the duration is their difference divided
  by 1000 and rounded; a call from 0 to 1500 gets the duration 2, not 1500.
\<close>

theorem duration_not_difference_counterexample:
  "startTime (bd_callData demo_batch) = 0 \<and> endTime (bd_callData demo_batch) = Some 1500 \<and>
   duration (build_callTranscript demo_batch) = Some 2 \<and>
   duration (build_callTranscript demo_batch) \<noteq> Some (1500 - 0)"
  by (simp add: build_callTranscript_def call_duration_def demo_batch_def demo_call_def
        Math_round_def Let_def)

text \<open>
  Claim C5, amended: processing the aggregation job of a call hands exactly one
  call-transcript record to the store. Its duration is the end time minus the start
  time, in milliseconds, divided by 1000 and rounded to the nearest whole second (a
  half rounds up); its languages are the distinct languages of the cached segments, in
  the order of their first occurrence (each language is listed where it first occurs
  and its later occurrences are dropped) and joined by commas; its total segment count is
  the number of cached segments; its status is \<open>completed\<close>.
\<close>

theorem call_transcript_record:
  "call_transcripts (processBatchCallComplete bd db) = call_transcripts db @ [build_callTranscript bd] \<and>
   duration (build_callTranscript bd) =
     map_option (\<lambda>e. (e - startTime (bd_callData bd) + 500) div 1000) (endTime (bd_callData bd)) \<and>
   total_segments (build_callTranscript bd) = length (bd_transcriptSegments bd) \<and>
   set (detected_languages (bd_transcriptSegments bd)) =
     (\<lambda>s. ev_language (cached_data s)) ` set (bd_transcriptSegments bd) \<and>
   distinct (detected_languages (bd_transcriptSegments bd)) \<and>
   detected_languages (bd_transcriptSegments bd) =
     rev (remdups (rev (map (\<lambda>s. ev_language (cached_data s)) (bd_transcriptSegments bd)))) \<and>
   detected_languages [] = [] \<and>
   detected_languages (c # cs) =
     ev_language (cached_data c) #
       filter (\<lambda>l. l \<noteq> ev_language (cached_data c)) (detected_languages cs) \<and>
   languages (build_callTranscript bd) =
     join_comma (map (\<lambda>l. case l of None \<Rightarrow> [] | Some s \<Rightarrow> s)
                   (detected_languages (bd_transcriptSegments bd))) \<and>
   status (build_callTranscript bd) = ''completed''"
proof -
  have "call_transcripts (processBatchCallComplete bd db) = call_transcripts db @ [build_callTranscript bd]"
    by (simp add: processBatchCallComplete_def insertCallTranscript_def
          insertTranscriptSegments_def Let_def)
  moreover have "duration (build_callTranscript bd) =
     map_option (\<lambda>e. (e - startTime (bd_callData bd) + 500) div 1000) (endTime (bd_callData bd))"
    by (simp add: build_callTranscript_def call_duration_def Math_round_diff Let_def
          split: option.split)
  moreover have "set (detected_languages (bd_transcriptSegments bd)) =
     (\<lambda>s. ev_language (cached_data s)) ` set (bd_transcriptSegments bd)"
    by (simp add: detected_languages_def set_js_set)
  moreover have "distinct (detected_languages (bd_transcriptSegments bd))"
    by (simp add: detected_languages_def distinct_js_set)
  moreover have "detected_languages (bd_transcriptSegments bd) =
     rev (remdups (rev (map (\<lambda>s. ev_language (cached_data s)) (bd_transcriptSegments bd))))"
    by (simp only: detected_languages_def js_set_first_occ)
  moreover have "detected_languages [] = []"
    by (simp add: detected_languages_def js_set_def)
  moreover have "detected_languages (c # cs) =
     ev_language (cached_data c) #
       filter (\<lambda>l. l \<noteq> ev_language (cached_data c)) (detected_languages cs)"
    by (simp only: detected_languages_def list.map js_set_Cons)
  ultimately show ?thesis
    by (simp add: build_callTranscript_def Let_def)
qed

theorem call_transcript_record_witness:
  "call_transcripts (processBatchCallComplete demo_batch demo_db) = [build_callTranscript demo_batch] \<and>
   duration (build_callTranscript demo_batch) = Some 2 \<and>
   total_segments (build_callTranscript demo_batch) = 3 \<and>
   map (\<lambda>s. ev_language (cached_data s)) (bd_transcriptSegments demo_batch) =
     [Some ''bn-IN'', Some ''bn-BD'', Some ''bn-BD''] \<and>
   detected_languages (bd_transcriptSegments demo_batch) = [Some ''bn-IN'', Some ''bn-BD''] \<and>
   languages (build_callTranscript demo_batch) = ''bn-IN,bn-BD'' \<and>
   status (build_callTranscript demo_batch) = ''completed''"
  using call_transcript_record [where bd = demo_batch and db = demo_db]
  by (simp add: demo_defs detected_languages_def js_set_def
        ttsData_def sttData_def extractLanguage_def opt_or_def str_or_def js_def
        build_callTranscript_def call_duration_def Math_round_def Let_def)

section \<open>Recording jobs without provider credentials\<close>

text \<open>
  Claim C6: when the provider credentials are absent (the environment variable is unset
  or empty), \<open>processRecordingJob\<close> returns the result \<open>processed: false\<close> with the
  reason \<open>No Google Cloud credentials\<close> instead of throwing, it hands no segment to
  the store, and the lane counts the job as completed, its failure counter unchanged.
\<close>

theorem recording_job_skipped_without_credentials:
  "\<not> truthy (credentials env) \<Longrightarrow>
     processRecordingJob env rd db = (Inr (NotProcessed ''No Google Cloud credentials''), db) \<and>
     run_recording_job env rd (db, c) = (db, c\<lparr>completed := completed c + 1\<rparr>)"
  by (simp add: processRecordingJob_def run_recording_job_def settle_job_def)

theorem recording_job_skipped_without_credentials_witness:
  "\<not> truthy (credentials demo_env_no_credentials) \<and>
   transcript_segments (snd (processRecordingJob demo_env_no_credentials demo_recording demo_db)) = [] \<and>
   fst (processRecordingJob demo_env_no_credentials demo_recording demo_db) =
     Inr (NotProcessed ''No Google Cloud credentials'') \<and>
   failed (snd (run_recording_job demo_env_no_credentials demo_recording
       (demo_db, \<lparr>completed = 0, failed = 0\<rparr>))) = 0 \<and>
   transcript_segments (snd (processRecordingJob
       (demo_env_no_credentials\<lparr>credentials := Some (js ''key.json'')\<rparr>) demo_recording demo_db)) \<noteq> []"
  using recording_job_skipped_without_credentials [of demo_env_no_credentials demo_recording
      demo_db "\<lparr>completed = 0, failed = 0\<rparr>"]
  by (simp add: demo_defs truthy_def processRecordingJob_def
        js_def trim_truthy_def js_whitespace_def insertTranscriptSegments_def)

section \<open>Call completion without cached events\<close>

text \<open>
  Claim C10: when the cache of the call is absent or empty, \<open>processCallComplete\<close>
  adds no job to the batch queue (nor to any other queue), so no call-transcript record
  is ever built for the call, and the cache entry of the call id is removed.
\<close>

theorem call_complete_without_cache:
  "activeCallTranscripts p (callSid callData) = None \<or>
   activeCallTranscripts p (callSid callData) = Some [] \<Longrightarrow>
     q_batch (processCallComplete callData now p) = q_batch p \<and>
     q_tts (processCallComplete callData now p) = q_tts p \<and>
     q_stt (processCallComplete callData now p) = q_stt p \<and>
     activeCallTranscripts (processCallComplete callData now p) =
       (activeCallTranscripts p)(callSid callData := None)"
  by (auto simp: processCallComplete_def trackProcessedEvent_def reportPerformance_def Let_def)

theorem call_complete_without_cache_witness:
  "activeCallTranscripts (initialize (new_processor 0)) (callSid demo_call) = None \<and>
   q_batch (processCallComplete demo_call 7 (initialize (new_processor 0))) = [] \<and>
   activeCallTranscripts (processCallComplete demo_call 7 (initialize (new_processor 0)))
     (js ''C1'') = None \<and>
   call_transcripts (run_jobs (processCallComplete demo_call 7 (initialize (new_processor 0))) demo_db) = [] \<and>
   call_transcripts (run_jobs (transcriptProcessor (run trace_completed demo_listener)) demo_db) \<noteq> []"
  using call_complete_without_cache [of "initialize (new_processor 0)" demo_call 7]
  by (simp add: listener_defs processor_defs js_defs demo_defs job_defs Let_def)

section \<open>The per-call cache\<close>

lemma addToCallCache_cache:
  "activeCallTranscripts (addToCallCache sid d now p) =
     (activeCallTranscripts p)(sid \<mapsto>
        drop (length (case activeCallTranscripts p sid of None \<Rightarrow> [] | Some xs \<Rightarrow> xs) + 1 - 100)
          ((case activeCallTranscripts p sid of None \<Rightarrow> [] | Some xs \<Rightarrow> xs) @
             [\<lparr>cached_data = d, cached_at = now\<rparr>]))"
  by (simp add: addToCallCache_def Let_def)

lemma cache_bounded_track: "cache_bounded (trackProcessedEvent now p) = cache_bounded p"
  by (simp add: cache_bounded_def trackProcessedEvent_fields)

lemma batch_bounded_track: "batch_bounded (trackProcessedEvent now p) = batch_bounded p"
  by (simp add: batch_bounded_def trackProcessedEvent_fields)

lemma cache_bounded_add: "cache_bounded p \<Longrightarrow> cache_bounded (addToCallCache sid d now p)"
  by (auto simp: cache_bounded_def addToCallCache_cache)

lemma batch_bounded_add: "batch_bounded (addToCallCache sid d now p) = batch_bounded p"
  by (simp add: batch_bounded_def addToCallCache_fields)

lemma cache_bounded_q_tts: "cache_bounded (p\<lparr>q_tts := q\<rparr>) = cache_bounded p"
  by (simp add: cache_bounded_def)

lemma cache_bounded_q_stt: "cache_bounded (p\<lparr>q_stt := q\<rparr>) = cache_bounded p"
  by (simp add: cache_bounded_def)

lemma batch_bounded_q_tts: "batch_bounded (p\<lparr>q_tts := q\<rparr>) = batch_bounded p"
  by (simp add: batch_bounded_def)

lemma batch_bounded_q_stt: "batch_bounded (p\<lparr>q_stt := q\<rparr>) = batch_bounded p"
  by (simp add: batch_bounded_def)

lemma bounded_processTTSEvent:
  "cache_bounded p \<and> batch_bounded p \<Longrightarrow>
     cache_bounded (processTTSEvent d now p) \<and> batch_bounded (processTTSEvent d now p)"
  by (simp add: processTTSEvent_def cache_bounded_track batch_bounded_track cache_bounded_add
        batch_bounded_add cache_bounded_q_tts batch_bounded_q_tts)

lemma bounded_processSTTEvent:
  "cache_bounded p \<and> batch_bounded p \<Longrightarrow>
     cache_bounded (processSTTEvent d now p) \<and> batch_bounded (processSTTEvent d now p)"
  by (simp add: processSTTEvent_def cache_bounded_track batch_bounded_track cache_bounded_add
        batch_bounded_add cache_bounded_q_stt batch_bounded_q_stt)

lemma bounded_processCallComplete:
  assumes "cache_bounded p \<and> batch_bounded p"
  shows "cache_bounded (processCallComplete c now p) \<and> batch_bounded (processCallComplete c now p)"
proof -
  from assms have cb: "cache_bounded p" and bb: "batch_bounded p" by simp_all
  have "cache_bounded (processCallComplete c now p)"
    using cb
    by (auto simp: processCallComplete_def Let_def trackProcessedEvent_fields cache_bounded_def
          split: option.splits if_splits)
  moreover have "batch_bounded (processCallComplete c now p)"
    using cb bb
    by (auto simp: processCallComplete_def Let_def trackProcessedEvent_fields cache_bounded_def
          batch_bounded_def split: option.splits)
  ultimately show ?thesis by simp
qed

lemma addCallEvent_transcriptProcessor:
  "transcriptProcessor (addCallEvent sid ev s) = transcriptProcessor s"
  by (simp add: addCallEvent_def split: option.split)

lemma bounded_dispatch: "proc_bounded s \<Longrightarrow> proc_bounded (dispatch now m s)"
proof (cases m)
  case (CHANNEL_CREATE e)
  assume "proc_bounded s"
  then show ?thesis
    by (simp add: CHANNEL_CREATE proc_bounded_def handleChannelCreate_def Let_def
          trackEvent_transcriptProcessor)
next
  case (CHANNEL_ANSWER e)
  assume "proc_bounded s"
  then show ?thesis
    by (simp add: CHANNEL_ANSWER proc_bounded_def handleChannelAnswer_def Let_def
          trackEvent_transcriptProcessor)
next
  case (CHANNEL_HANGUP e)
  assume "proc_bounded s"
  then show ?thesis
    by (simp add: CHANNEL_HANGUP proc_bounded_def handleChannelHangup_def Let_def
          trackEvent_transcriptProcessor listener_processCallComplete_def
          bounded_processCallComplete)
next
  case (CHANNEL_EXECUTE e)
  assume "proc_bounded s"
  then show ?thesis
    by (simp add: CHANNEL_EXECUTE proc_bounded_def handleChannelExecute_def Let_def
          trackEvent_transcriptProcessor addCallEvent_transcriptProcessor broadcast_to_fields
          bounded_processTTSEvent)
next
  case (CHANNEL_EXECUTE_COMPLETE e)
  assume "proc_bounded s"
  then show ?thesis
    by (simp add: CHANNEL_EXECUTE_COMPLETE proc_bounded_def handleChannelExecuteComplete_def
          Let_def trackEvent_transcriptProcessor broadcast_to_fields)
next
  case (DETECTED_SPEECH e)
  assume "proc_bounded s"
  then show ?thesis
    by (simp add: DETECTED_SPEECH proc_bounded_def handleDetectedSpeech_def Let_def
          trackEvent_transcriptProcessor broadcast_to_fields bounded_processSTTEvent)
qed

lemma bounded_run: "proc_bounded s \<Longrightarrow> proc_bounded (run ms s)"
  by (induction ms arbitrary: s) (auto simp: bounded_dispatch)

lemma bounded_fresh:
  "proc_bounded (new_listener envMax envDelay (initialize (new_processor t0)) cb t0)"
  by (simp add: proc_bounded_def cache_bounded_def batch_bounded_def new_listener_def
        initialize_def new_processor_def)

lemma tts_step:
  "isInitialized p \<Longrightarrow>
     isInitialized (processTTSEvent d now p) \<and>
     activeCallTranscripts (processTTSEvent d now p) (ev_callSid d) =
       Some (drop (length (case activeCallTranscripts p (ev_callSid d) of None \<Rightarrow> [] | Some xs \<Rightarrow> xs) + 1 - 100)
          ((case activeCallTranscripts p (ev_callSid d) of None \<Rightarrow> [] | Some xs \<Rightarrow> xs) @
             [\<lparr>cached_data = d, cached_at = now\<rparr>]))"
  by (simp add: processTTSEvent_def trackProcessedEvent_fields addToCallCache_fields
        addToCallCache_cache)

lemma tts_repeat_cache:
  "isInitialized p \<Longrightarrow> activeCallTranscripts p (ev_callSid d) = None \<Longrightarrow>
     isInitialized (((processTTSEvent d now) ^^ n) p) \<and>
     activeCallTranscripts (((processTTSEvent d now) ^^ n) p) (ev_callSid d) =
       (if n = 0 then None else Some (replicate (min n 100) \<lparr>cached_data = d, cached_at = now\<rparr>))"
proof (induction n)
  case 0
  then show ?case by simp
next
  case (Suc n)
  define q where "q = ((processTTSEvent d now) ^^ n) p"
  define c where "c = \<lparr>cached_data = d, cached_at = now\<rparr>"
  from Suc have init: "isInitialized q"
    and cache: "activeCallTranscripts q (ev_callSid d) =
       (if n = 0 then None else Some (replicate (min n 100) c))"
    by (simp_all add: q_def c_def)
  have step: "((processTTSEvent d now) ^^ Suc n) p = processTTSEvent d now q"
    by (simp add: q_def)
  have rep: "replicate k c @ [c] = replicate (Suc k) c" for k
    by (simp add: replicate_append_same)
  have "drop (length (case activeCallTranscripts q (ev_callSid d) of None \<Rightarrow> [] | Some xs \<Rightarrow> xs) + 1 - 100)
          ((case activeCallTranscripts q (ev_callSid d) of None \<Rightarrow> [] | Some xs \<Rightarrow> xs) @ [c])
        = replicate (min (Suc n) 100) c"
  proof (cases "n = 0")
    case True
    then show ?thesis using cache by simp
  next
    case False
    then have "activeCallTranscripts q (ev_callSid d) = Some (replicate (min n 100) c)"
      using cache by simp
    then show ?thesis
      by (simp only: option.case rep drop_replicate length_replicate)
         (simp add: min_def)
  qed
  then show ?case
    using tts_step [OF init, of d now] by (simp only: step c_def) simp
qed


text \<open>
  Claim C9: a cache never holds more than 100 events. \<open>addToCallCache\<close> leaves
  the last 100 of the old entries followed by the new one, so a cache that held exactly
  100 loses its oldest entry. Hence after any sequence of switch events on a fresh
  listener every cache has at most 100 entries, and every aggregation job submitted at
  a hangup carries at most 100 segments and yields a record with
  \<open>total_segments\<close> at most 100; a call for which \<open>n\<close> synthesis events were
  classified has \<open>min n 100\<close> cached events.
\<close>

theorem cache_keeps_last_100:
  "(\<exists>xs. activeCallTranscripts (addToCallCache sid d now p) sid = Some xs \<and> length xs \<le> 100 \<and>
      xs = drop (length (case activeCallTranscripts p sid of None \<Rightarrow> [] | Some ys \<Rightarrow> ys) + 1 - 100)
             ((case activeCallTranscripts p sid of None \<Rightarrow> [] | Some ys \<Rightarrow> ys) @
                [\<lparr>cached_data = d, cached_at = now\<rparr>])) \<and>
   (activeCallTranscripts p sid = Some old \<and> length old = 100 \<longrightarrow>
      activeCallTranscripts (addToCallCache sid d now p) sid =
        Some (tl old @ [\<lparr>cached_data = d, cached_at = now\<rparr>])) \<and>
   (\<forall>j \<in> set (q_batch (transcriptProcessor
        (run ms (new_listener envMax envDelay (initialize (new_processor t0)) cb t0)))).
      length (bd_transcriptSegments (job_data j)) \<le> 100 \<and>
      total_segments (build_callTranscript (job_data j)) \<le> 100) \<and>
   (\<forall>k xs. activeCallTranscripts (transcriptProcessor
        (run ms (new_listener envMax envDelay (initialize (new_processor t0)) cb t0))) k = Some xs
      \<longrightarrow> length xs \<le> 100) \<and>
   (isInitialized q \<and> activeCallTranscripts q (ev_callSid d) = None \<longrightarrow>
      map_option length (activeCallTranscripts (((processTTSEvent d now) ^^ n) q) (ev_callSid d)) =
        (if n = 0 then None else Some (min n 100)))"
proof -
  have add: "\<exists>xs. activeCallTranscripts (addToCallCache sid d now p) sid = Some xs \<and> length xs \<le> 100 \<and>
      xs = drop (length (case activeCallTranscripts p sid of None \<Rightarrow> [] | Some ys \<Rightarrow> ys) + 1 - 100)
             ((case activeCallTranscripts p sid of None \<Rightarrow> [] | Some ys \<Rightarrow> ys) @
                [\<lparr>cached_data = d, cached_at = now\<rparr>])"
    by (simp add: addToCallCache_cache)
  have full: "activeCallTranscripts p sid = Some old \<and> length old = 100 \<longrightarrow>
      activeCallTranscripts (addToCallCache sid d now p) sid =
        Some (tl old @ [\<lparr>cached_data = d, cached_at = now\<rparr>])"
    by (simp add: addToCallCache_cache drop_Suc)
  have inv: "proc_bounded (run ms (new_listener envMax envDelay (initialize (new_processor t0)) cb t0))"
    by (rule bounded_run [OF bounded_fresh])
  have jobs: "\<forall>j \<in> set (q_batch (transcriptProcessor
        (run ms (new_listener envMax envDelay (initialize (new_processor t0)) cb t0)))).
      length (bd_transcriptSegments (job_data j)) \<le> 100 \<and>
      total_segments (build_callTranscript (job_data j)) \<le> 100"
    using inv by (simp add: proc_bounded_def batch_bounded_def build_callTranscript_def Let_def)
  have caches: "\<forall>k xs. activeCallTranscripts (transcriptProcessor
        (run ms (new_listener envMax envDelay (initialize (new_processor t0)) cb t0))) k = Some xs
      \<longrightarrow> length xs \<le> 100"
    using inv by (simp add: proc_bounded_def cache_bounded_def)
  have many: "isInitialized q \<and> activeCallTranscripts q (ev_callSid d) = None \<longrightarrow>
      map_option length (activeCallTranscripts (((processTTSEvent d now) ^^ n) q) (ev_callSid d)) =
        (if n = 0 then None else Some (min n 100))"
    using tts_repeat_cache [where p = q and d = d and now = now and n = n] by simp
  from add full jobs caches many show ?thesis by blast
qed

theorem cache_keeps_last_100_witness:
  "isInitialized (initialize (new_processor 0)) \<and>
   activeCallTranscripts (initialize (new_processor 0)) (js ''C1'') = None \<and>
   map_option length (activeCallTranscripts
      (((processTTSEvent (ttsData (js ''C1'') (js ''hello'') 2) 2) ^^ 150) (initialize (new_processor 0)))
      (js ''C1'')) = Some 100 \<and>
   map (\<lambda>j. total_segments (build_callTranscript (job_data j)))
     (q_batch (transcriptProcessor (run trace_completed demo_listener))) = [1] \<and>
   activeCallTranscripts
     ((initialize (new_processor 0))\<lparr>activeCallTranscripts :=
        (\<lambda>_. None)(js ''C1'' \<mapsto> replicate 100 \<lparr>cached_data = ttsData (js ''C1'') (js ''hello'') 2, cached_at = 2\<rparr>)\<rparr>)
     (js ''C1'') = Some (replicate 100 \<lparr>cached_data = ttsData (js ''C1'') (js ''hello'') 2, cached_at = 2\<rparr>) \<and>
   length (replicate 100 \<lparr>cached_data = ttsData (js ''C1'') (js ''hello'') 2, cached_at = 2\<rparr>) = 100 \<and>
   activeCallTranscripts (addToCallCache (js ''C1'') (sttData (js ''C1'') (js ''yes'') None 9) 9
     ((initialize (new_processor 0))\<lparr>activeCallTranscripts :=
        (\<lambda>_. None)(js ''C1'' \<mapsto> replicate 100 \<lparr>cached_data = ttsData (js ''C1'') (js ''hello'') 2, cached_at = 2\<rparr>)\<rparr>))
     (js ''C1'') =
     Some (replicate 99 \<lparr>cached_data = ttsData (js ''C1'') (js ''hello'') 2, cached_at = 2\<rparr> @
           [\<lparr>cached_data = sttData (js ''C1'') (js ''yes'') None 9, cached_at = 9\<rparr>])"
  using cache_keeps_last_100 [where sid = "js ''C1''" and d = "ttsData (js ''C1'') (js ''hello'') 2"
          and now = 2 and p = "initialize (new_processor 0)" and old = "[]"
          and ms = trace_completed and envMax = None and envDelay = None and ?t0.0 = 0
          and cb = True and q = "initialize (new_processor 0)" and n = 150]
        cache_keeps_last_100 [where sid = "js ''C1''" and d = "sttData (js ''C1'') (js ''yes'') None 9"
          and now = 9
          and p = "(initialize (new_processor 0))\<lparr>activeCallTranscripts :=
        (\<lambda>_. None)(js ''C1'' \<mapsto> replicate 100 \<lparr>cached_data = ttsData (js ''C1'') (js ''hello'') 2, cached_at = 2\<rparr>)\<rparr>"
          and old = "replicate 100 \<lparr>cached_data = ttsData (js ''C1'') (js ''hello'') 2, cached_at = 2\<rparr>"
          and ms = "[]" and envMax = None and envDelay = None and ?t0.0 = 0
          and cb = True and q = "initialize (new_processor 0)" and n = 0]
  by (simp add: listener_defs processor_defs js_defs demo_defs job_defs Let_def del: funpow.simps)

section \<open>Reconnection\<close>

lemma inv_handleDisconnection:
  "reconnect_inv m d s \<Longrightarrow> reconnect_inv m d (handleDisconnection s)"
  by (auto simp: reconnect_inv_def handleDisconnection_def)

lemma inv_conn_step: "reconnect_inv m d s \<Longrightarrow> reconnect_inv m d (conn_step e s)"
proof (cases e)
  case EslReady
  assume "reconnect_inv m d s"
  then show ?thesis by (simp add: EslReady reconnect_inv_def)
next
  case EslEnd
  assume "reconnect_inv m d s"
  then have "reconnect_inv m d (s\<lparr>isConnected := False\<rparr>)" by (simp add: reconnect_inv_def)
  then show ?thesis by (simp add: EslEnd inv_handleDisconnection)
next
  case EslError
  assume "reconnect_inv m d s"
  then have "reconnect_inv m d (s\<lparr>isConnected := False\<rparr>)" by (simp add: reconnect_inv_def)
  then show ?thesis by (simp add: EslError inv_handleDisconnection)
next
  case ReconnectFailed
  assume "reconnect_inv m d s"
  then show ?thesis by (simp add: ReconnectFailed inv_handleDisconnection)
qed

lemma inv_conn_run: "reconnect_inv m d s \<Longrightarrow> reconnect_inv m d (conn_run es s)"
  by (induction es arbitrary: s) (auto simp: inv_conn_step)

lemma inv_fresh:
  "reconnect_inv (env_int envMax 10) (env_int envDelay 5000) (new_listener envMax envDelay tp cb t0)"
  by (simp add: reconnect_inv_def new_listener_def)

lemma count_conn_step:
  "e \<noteq> EslReady \<Longrightarrow> int (length (timers s)) = reconnectAttempts s \<Longrightarrow>
     int (length (timers (conn_step e s))) = reconnectAttempts (conn_step e s)"
  by (cases e) (auto simp: handleDisconnection_def)

lemma count_conn_run:
  "EslReady \<notin> set es \<Longrightarrow> int (length (timers s)) = reconnectAttempts s \<Longrightarrow>
     int (length (timers (conn_run es s))) = reconnectAttempts (conn_run es s)"
  by (induction es arbitrary: s) (auto simp: count_conn_step)

lemma ceiling_handleDisconnection:
  "reconnectAttempts x \<ge> maxReconnectAttempts x \<Longrightarrow>
     handleDisconnection x = x\<lparr>emitted := emitted x @ [''max_reconnects_reached'']\<rparr>"
  by (simp add: handleDisconnection_def)

lemma ceiling_conn_step:
  "reconnectAttempts x \<ge> maxReconnectAttempts x \<Longrightarrow> e \<noteq> EslReady \<Longrightarrow>
     timers (conn_step e x) = timers x \<and>
     reconnectAttempts (conn_step e x) = reconnectAttempts x \<and>
     maxReconnectAttempts (conn_step e x) = maxReconnectAttempts x \<and>
     emitted (conn_step e x) = emitted x @ [''max_reconnects_reached'']"
  by (cases e) (auto simp: handleDisconnection_def)

lemma ceiling_conn_run:
  "reconnectAttempts x \<ge> maxReconnectAttempts x \<Longrightarrow> EslReady \<notin> set es \<Longrightarrow>
     timers (conn_run es x) = timers x \<and>
     reconnectAttempts (conn_run es x) = reconnectAttempts x \<and>
     emitted (conn_run es x) = emitted x @ replicate (length es) ''max_reconnects_reached''"
proof (induction es arbitrary: x)
  case Nil
  then show ?case by simp
next
  case (Cons e es)
  then have ne: "e \<noteq> EslReady" and rest: "EslReady \<notin> set es" by auto
  note st = ceiling_conn_step [OF Cons.prems(1) ne]
  from st Cons.prems(1) have "reconnectAttempts (conn_step e x) \<ge> maxReconnectAttempts (conn_step e x)"
    by simp
  from Cons.IH [OF this rest] st show ?case
    by (simp add: replicate_append_same)
qed

text \<open>
  Claim C7, as stated: once the attempt count has reached the ceiling and
  \<open>max_reconnects_reached\<close> has been emitted, the connection is in a terminal state
  and no further reconnect is attempted. It fails, with the ceiling 2: the connection
  drops (first timer); the reconnect fails with an error event, which runs
  \<open>handleDisconnection\<close> twice, from the error handler of \<open>setupEventHandlers\<close>
  (second timer, counter 2) and from the \<open>catch\<close> of the timer callback (signal
  emitted); the second timer, which nothing cancels, reconnects with success and the
  counter is reset; the next drop sets a third timer.
\<close>

theorem failed_not_terminal_counterexample:
  "maxReconnectAttempts (conn_run [EslEnd, EslError, ReconnectFailed] demo_reconnect) = 2 \<and>
   reconnectAttempts (conn_run [EslEnd, EslError, ReconnectFailed] demo_reconnect) = 2 \<and>
   emitted (conn_run [EslEnd, EslError, ReconnectFailed] demo_reconnect) =
     [''max_reconnects_reached''] \<and>
   timers (conn_run [EslEnd, EslError, ReconnectFailed] demo_reconnect) = [5000, 5000] \<and>
   reconnectAttempts (conn_run [EslReady, EslEnd]
      (conn_run [EslEnd, EslError, ReconnectFailed] demo_reconnect)) = 1 \<and>
   timers (conn_run [EslReady, EslEnd]
      (conn_run [EslEnd, EslError, ReconnectFailed] demo_reconnect)) = [5000, 5000, 5000] \<and>
   timers (conn_run [EslReady, EslEnd]
      (conn_run [EslEnd, EslError, ReconnectFailed] demo_reconnect)) \<noteq>
     timers (conn_run [EslEnd, EslError, ReconnectFailed] demo_reconnect)"
  by (simp add: handleDisconnection_def new_listener_def env_int_def demo_reconnect_def)

text \<open>
  Claim C7, amended: from a fresh listener and through any sequence of connection
  events, the attempt counter never exceeds the configured ceiling and every reconnect
  timer is set with the configured delay, whatever the attempt number; in a run without a
  successful connection the number of reconnects scheduled equals the counter, so it is
  at most the ceiling. Below the ceiling \<open>handleDisconnection\<close> counts one attempt
  and sets one timer. At the ceiling it emits \<open>max_reconnects_reached\<close> and nothing
  else, and for as long as no connection succeeds any further disconnections and failed
  reconnects set no timer and leave the counter where it is. The state is not terminal:
  a successful connection resets the counter to 0 and keeps the timers and signals as
  they are, so that with a positive ceiling the next disconnection sets a timer again.
\<close>

theorem reconnect_attempts_bounded:
  "reconnectAttempts (conn_run es (new_listener envMax envDelay tp cb t0)) \<le>
     max 0 (env_int envMax 10) \<and>
   set (timers (conn_run es (new_listener envMax envDelay tp cb t0))) \<subseteq> {env_int envDelay 5000} \<and>
   (EslReady \<notin> set es \<longrightarrow>
      int (length (timers (conn_run es (new_listener envMax envDelay tp cb t0)))) =
        reconnectAttempts (conn_run es (new_listener envMax envDelay tp cb t0)) \<and>
      int (length (timers (conn_run es (new_listener envMax envDelay tp cb t0)))) \<le>
        max 0 (env_int envMax 10)) \<and>
   (reconnectAttempts x < maxReconnectAttempts x \<longrightarrow>
      handleDisconnection x =
        x\<lparr>reconnectAttempts := reconnectAttempts x + 1, timers := timers x @ [reconnectDelay x]\<rparr>) \<and>
   (reconnectAttempts x \<ge> maxReconnectAttempts x \<longrightarrow>
      handleDisconnection x = x\<lparr>emitted := emitted x @ [''max_reconnects_reached'']\<rparr>) \<and>
   (reconnectAttempts x \<ge> maxReconnectAttempts x \<and> EslReady \<notin> set es' \<longrightarrow>
      timers (conn_run es' x) = timers x \<and>
      reconnectAttempts (conn_run es' x) = reconnectAttempts x \<and>
      emitted (conn_run es' x) = emitted x @ replicate (length es') ''max_reconnects_reached'') \<and>
   reconnectAttempts (conn_step EslReady x) = 0 \<and>
   timers (conn_step EslReady x) = timers x \<and>
   emitted (conn_step EslReady x) = emitted x \<and>
   (0 < maxReconnectAttempts x \<longrightarrow>
      timers (conn_run [EslReady, EslEnd] x) = timers x @ [reconnectDelay x] \<and>
      reconnectAttempts (conn_run [EslReady, EslEnd] x) = 1)"
proof -
  let ?s = "conn_run es (new_listener envMax envDelay tp cb t0)"
  have inv: "reconnect_inv (env_int envMax 10) (env_int envDelay 5000) ?s"
    by (rule inv_conn_run [OF inv_fresh])
  then have a: "reconnectAttempts ?s \<le> max 0 (env_int envMax 10)"
    and b: "set (timers ?s) \<subseteq> {env_int envDelay 5000}"
    by (simp_all add: reconnect_inv_def)
  have c: "EslReady \<notin> set es \<longrightarrow>
      int (length (timers ?s)) = reconnectAttempts ?s \<and>
      int (length (timers ?s)) \<le> max 0 (env_int envMax 10)"
  proof
    assume nr: "EslReady \<notin> set es"
    have "int (length (timers (new_listener envMax envDelay tp cb t0))) =
        reconnectAttempts (new_listener envMax envDelay tp cb t0)"
      by (simp add: new_listener_def)
    from count_conn_run [OF nr this] a
    show "int (length (timers ?s)) = reconnectAttempts ?s \<and>
      int (length (timers ?s)) \<le> max 0 (env_int envMax 10)"
      by simp
  qed
  have d: "reconnectAttempts x < maxReconnectAttempts x \<longrightarrow>
      handleDisconnection x =
        x\<lparr>reconnectAttempts := reconnectAttempts x + 1, timers := timers x @ [reconnectDelay x]\<rparr>"
    by (simp add: handleDisconnection_def)
  have e: "reconnectAttempts x \<ge> maxReconnectAttempts x \<longrightarrow>
      handleDisconnection x = x\<lparr>emitted := emitted x @ [''max_reconnects_reached'']\<rparr>"
    by (simp add: ceiling_handleDisconnection)
  have f: "reconnectAttempts x \<ge> maxReconnectAttempts x \<and> EslReady \<notin> set es' \<longrightarrow>
      timers (conn_run es' x) = timers x \<and>
      reconnectAttempts (conn_run es' x) = reconnectAttempts x \<and>
      emitted (conn_run es' x) = emitted x @ replicate (length es') ''max_reconnects_reached''"
    using ceiling_conn_run [of x es'] by blast
  have g: "reconnectAttempts (conn_step EslReady x) = 0 \<and>
      timers (conn_step EslReady x) = timers x \<and>
      emitted (conn_step EslReady x) = emitted x"
    by simp
  have h: "0 < maxReconnectAttempts x \<longrightarrow>
      timers (conn_run [EslReady, EslEnd] x) = timers x @ [reconnectDelay x] \<and>
      reconnectAttempts (conn_run [EslReady, EslEnd] x) = 1"
    by (simp add: handleDisconnection_def)
  from a b c d e f g h show ?thesis by blast
qed

lemmas conn_defs = handleDisconnection_def new_listener_def env_int_def demo_reconnect_def

theorem reconnect_attempts_bounded_witness:
  "EslReady \<notin> set [EslEnd, ReconnectFailed, ReconnectFailed, EslError] \<and>
   timers (conn_run [EslEnd, ReconnectFailed, ReconnectFailed, EslError] demo_reconnect) = [5000, 5000] \<and>
   reconnectAttempts (conn_run [EslEnd, ReconnectFailed, ReconnectFailed, EslError] demo_reconnect) = 2 \<and>
   maxReconnectAttempts (conn_run [EslEnd, ReconnectFailed, ReconnectFailed, EslError] demo_reconnect) = 2 \<and>
   emitted (conn_run [EslEnd, ReconnectFailed, ReconnectFailed, EslError] demo_reconnect) =
     [''max_reconnects_reached'', ''max_reconnects_reached''] \<and>
   reconnectAttempts demo_reconnect < maxReconnectAttempts demo_reconnect \<and>
   timers (handleDisconnection demo_reconnect) = [5000] \<and>
   timers (conn_run [EslError, EslEnd, ReconnectFailed]
      (conn_run [EslEnd, ReconnectFailed, ReconnectFailed] demo_reconnect)) = [5000, 5000] \<and>
   0 < maxReconnectAttempts (conn_run [EslEnd, ReconnectFailed, ReconnectFailed] demo_reconnect) \<and>
   reconnectAttempts (conn_step EslReady
      (conn_run [EslEnd, ReconnectFailed, ReconnectFailed] demo_reconnect)) = 0 \<and>
   timers (conn_run [EslReady, EslEnd]
      (conn_run [EslEnd, ReconnectFailed, ReconnectFailed] demo_reconnect)) = [5000, 5000, 5000]"
  using reconnect_attempts_bounded [where es = "[EslEnd, ReconnectFailed, ReconnectFailed, EslError]"
          and envMax = "Some 2" and envDelay = None and tp = "initialize (new_processor 0)"
          and cb = True and ?t0.0 = 0 and x = demo_reconnect and es' = "[]"]
        reconnect_attempts_bounded [where es = "[]"
          and envMax = "Some 2" and envDelay = None and tp = "initialize (new_processor 0)"
          and cb = True and ?t0.0 = 0
          and x = "conn_run [EslEnd, ReconnectFailed, ReconnectFailed] demo_reconnect"
          and es' = "[EslError, EslEnd, ReconnectFailed]"]
  by (simp add: conn_defs)

end
